theory Spec2Isabelle
  imports Complex_Main
begin

section \<open>Numbers and arrays\<close>

text \<open>
  The program works on numpy arrays of double-precision numbers. An array entry is
  modelled as a real number or one of the three special values of the number format;
  arithmetic on finite values is exact real arithmetic, so rounding is not part of the
  model, and the two signed zeros are one value. What the model keeps is how the
  special values arise and propagate: \<open>0 / 0\<close>, \<open>0 * inf\<close> and the square root of
  a negative number are \<open>NaN\<close>, and \<open>NaN\<close> is absorbing.
\<close>

datatype npfloat = Num real | PInf | NInf | NaN

definition signed_inf :: "real \<Rightarrow> npfloat" where
  "signed_inf s = (if s = 0 then NaN else if 0 < s then PInf else NInf)"

fun np_sign :: "npfloat \<Rightarrow> real" where
  "np_sign (Num a) = sgn a"
| "np_sign PInf = 1"
| "np_sign NInf = - 1"
| "np_sign NaN = 0"

fun np_neg :: "npfloat \<Rightarrow> npfloat" where
  "np_neg (Num a) = Num (- a)"
| "np_neg PInf = NInf"
| "np_neg NInf = PInf"
| "np_neg NaN = NaN"

fun np_add :: "npfloat \<Rightarrow> npfloat \<Rightarrow> npfloat" where
  "np_add (Num a) (Num b) = Num (a + b)"
| "np_add NaN y = NaN"
| "np_add x NaN = NaN"
| "np_add PInf NInf = NaN"
| "np_add NInf PInf = NaN"
| "np_add PInf y = PInf"
| "np_add x PInf = PInf"
| "np_add NInf y = NInf"
| "np_add x NInf = NInf"

definition np_sub :: "npfloat \<Rightarrow> npfloat \<Rightarrow> npfloat" where
  "np_sub x y = np_add x (np_neg y)"

fun np_mul :: "npfloat \<Rightarrow> npfloat \<Rightarrow> npfloat" where
  "np_mul (Num a) (Num b) = Num (a * b)"
| "np_mul NaN y = NaN"
| "np_mul x NaN = NaN"
| "np_mul x y = signed_inf (np_sign x * np_sign y)"

fun np_div :: "npfloat \<Rightarrow> npfloat \<Rightarrow> npfloat" where
  "np_div (Num a) (Num b) = (if b = 0 then signed_inf (sgn a) else Num (a / b))"
| "np_div NaN y = NaN"
| "np_div x NaN = NaN"
| "np_div (Num a) y = Num 0"
| "np_div x (Num b) = signed_inf (np_sign x * (if b < 0 then - 1 else 1))"
| "np_div x y = NaN"

fun np_sqrt :: "npfloat \<Rightarrow> npfloat" where
  "np_sqrt (Num a) = (if a < 0 then NaN else Num (sqrt a))"
| "np_sqrt PInf = PInf"
| "np_sqrt NInf = NaN"
| "np_sqrt NaN = NaN"

definition np_square :: "npfloat \<Rightarrow> npfloat" where
  "np_square x = np_mul x x"

fun np_clip :: "real \<Rightarrow> real \<Rightarrow> npfloat \<Rightarrow> npfloat" where
  "np_clip lo hi (Num a) = Num (min (max a lo) hi)"
| "np_clip lo hi PInf = Num hi"
| "np_clip lo hi NInf = Num lo"
| "np_clip lo hi NaN = NaN"

text \<open>
  The input \<open>TS\<close> is an array of any number of dimensions: its shape and its entries
  in row-major order. The entries of the input are finite numbers. Row \<open>i\<close> of an
  array with rows of length \<open>L\<close> is the \<open>i\<close>-th block of \<open>L\<close> entries.
\<close>

datatype ndarray = NDArray (shape: "nat list") (flat: "real list")

definition row_of :: "nat \<Rightarrow> ndarray \<Rightarrow> nat \<Rightarrow> real list" where
  "row_of L TS i = take L (drop (i * L) (flat TS))"

text \<open>
  The arrays the program computes are square matrices, or, for a single row, an array
  of no dimensions holding one number (see \<open>squeeze\<close> below).
\<close>

datatype farray = Scalar npfloat | Matrix "npfloat list list"

fun map_farray :: "(npfloat \<Rightarrow> npfloat) \<Rightarrow> farray \<Rightarrow> farray" where
  "map_farray f (Scalar x) = Scalar (f x)"
| "map_farray f (Matrix rows) = Matrix (map (map f) rows)"

section \<open>The library routines called by fit\<close>

subsection \<open>numpy.corrcoef\<close>

text \<open>
  \<open>numpy.cov\<close> with its defaults: every row has its mean subtracted, the matrix of
  dot products of the rows is multiplied by \<open>1 / (L - 1)\<close>, and axes of length one are
  squeezed away, so that a single row gives an array of no dimensions. When
  \<open>L - 1 \<le> 0\<close> the routine warns and divides by zero, which makes the factor infinite.
  No rows give the empty matrix.
\<close>

definition demean :: "real list \<Rightarrow> real list" where
  "demean r = map (\<lambda>x. x - sum_list r / real (length r)) r"

definition dot :: "real list \<Rightarrow> real list \<Rightarrow> real" where
  "dot xs ys = sum_list (map (\<lambda>(x, y). x * y) (zip xs ys))"

definition squeeze :: "npfloat list list \<Rightarrow> farray" where
  "squeeze c = (case c of [[x]] \<Rightarrow> Scalar x | _ \<Rightarrow> Matrix c)"

definition cov_dense :: "nat \<Rightarrow> nat \<Rightarrow> ndarray \<Rightarrow> npfloat list list" where
  "cov_dense N L TS =
     (let X = map (\<lambda>i. demean (row_of L TS i)) [0..<N];
          fact = int L - 1;
          k = (if fact \<le> 0 then np_div (Num 1) (Num 0) else Num (1 / real_of_int fact))
      in map (\<lambda>xi. map (\<lambda>xj. np_mul (Num (dot xi xj)) k) X) X)"

definition np_cov :: "nat \<Rightarrow> nat \<Rightarrow> ndarray \<Rightarrow> farray" where
  "np_cov N L TS = squeeze (cov_dense N L TS)"

text \<open>
  \<open>numpy.corrcoef\<close>: a covariance of no dimensions is divided by itself. Otherwise
  the square roots of the diagonal divide the matrix, first along the rows and then
  along the columns, and the result is clipped to the interval from \<open>-1\<close> to \<open>1\<close>.
\<close>

definition diag :: "npfloat list list \<Rightarrow> npfloat list" where
  "diag c = map (\<lambda>i. c ! i ! i) [0..<length c]"

definition corr_dense :: "npfloat list list \<Rightarrow> npfloat list list" where
  "corr_dense c =
     (let stddev = map np_sqrt (diag c);
          c1 = map (\<lambda>(r, s). map (\<lambda>x. np_div x s) r) (zip c stddev);
          c2 = map (\<lambda>r. map (\<lambda>(x, s). np_div x s) (zip r stddev)) c1
      in map (map (np_clip (- 1) 1)) c2)"

definition np_corrcoef :: "nat \<Rightarrow> nat \<Rightarrow> ndarray \<Rightarrow> farray" where
  "np_corrcoef N L TS =
     (case np_cov N L TS of
        Scalar c \<Rightarrow> Scalar (np_div c c)
      | Matrix c \<Rightarrow> Matrix (corr_dense c))"

subsection \<open>scipy.sparse.csgraph.minimum_spanning_tree\<close>

text \<open>
  The routine reads a dense matrix as a graph in which an entry that is zero, infinite
  or not a number means that there is no edge. It refuses an array that does not have
  two dimensions. The edges that remain, taken row by row, are ordered by increasing
  weight and scanned once; an edge is kept when its two ends are still in different
  components (Kruskal's algorithm), and the components are then merged. The result is
  the sparse matrix of the kept entries of the input, in the order of the input.
  The library sorts the weights with \<open>argsort\<close>, which fixes one order of equal
  weights for a given input; the model takes the order of the input (a stable sort).
  For no rows at all the model returns the empty graph.
\<close>

type_synonym edge = "nat \<times> nat \<times> real"

datatype csr_matrix = CSR nat "edge list"

fun edge_weight :: "npfloat \<Rightarrow> real option" where
  "edge_weight (Num a) = (if a = 0 then None else Some a)"
| "edge_weight PInf = None"
| "edge_weight NInf = None"
| "edge_weight NaN = None"

definition csgraph_from_dense :: "npfloat list list \<Rightarrow> edge list" where
  "csgraph_from_dense D =
     concat (map (\<lambda>i. concat (map (\<lambda>j.
        (case edge_weight (D ! i ! j) of None \<Rightarrow> [] | Some w \<Rightarrow> [(i, j, w)]))
        [0..<length D])) [0..<length D])"

fun kruskal_step :: "nat list \<times> edge list \<Rightarrow> edge \<Rightarrow> nat list \<times> edge list" where
  "kruskal_step (lab, kept) (u, v, w) =
     (if lab ! u = lab ! v then (lab, kept)
      else (map (\<lambda>c. if c = lab ! v then lab ! u else c) lab, kept @ [(u, v, w)]))"

definition kruskal :: "nat \<Rightarrow> edge list \<Rightarrow> edge list" where
  "kruskal n es = snd (foldl kruskal_step ([0..<n], []) (sort_key (\<lambda>(u, v, w). w) es))"

datatype error = ValueError_unpack | ValueError_graph_dimensions

definition minimum_spanning_tree :: "farray \<Rightarrow> error + csr_matrix" where
  "minimum_spanning_tree D =
     (case D of
        Scalar x \<Rightarrow> Inl ValueError_graph_dimensions
      | Matrix rows \<Rightarrow>
          (let es = csgraph_from_dense rows;
               kept = kruskal (length rows) es
           in Inr (CSR (length rows) (filter (\<lambda>e. e \<in> set kept) es))))"

subsection \<open>networkx.from_scipy_sparse_matrix\<close>

text \<open>
  The graph made from an \<open>n\<close> by \<open>n\<close> sparse matrix has the nodes \<open>0\<close> to \<open>n - 1\<close>
  and one undirected edge, with the entry as its weight, for every stored entry.
\<close>

record graph =
  nodes :: "nat list"
  edges :: "edge list"

fun from_scipy_sparse_matrix :: "csr_matrix \<Rightarrow> graph" where
  "from_scipy_sparse_matrix (CSR n es) = \<lparr>nodes = [0..<n], edges = es\<rparr>"

section \<open>CorrelationSpanningTree.fit\<close>

text \<open>
  \<open>self.results\<close> is a dictionary that belongs to the reconstructor object; \<open>fit\<close>
  writes into it, so the model takes the dictionary and returns it updated, next to
  the value \<open>fit\<close> returns or the error it raises. Unpacking \<open>TS.shape\<close> into
  \<open>N, L\<close> raises unless the shape has exactly two entries.
\<close>

datatype result = VArray farray | VGraph graph

type_synonym results = "string \<rightharpoonup> result"

definition root_inv :: "npfloat \<Rightarrow> npfloat" where
  "root_inv c = np_sqrt (np_mul (Num 2) (np_sub (Num 1) c))"

definition inv_square :: "npfloat \<Rightarrow> npfloat" where
  "inv_square c = np_sub (Num 1) (np_square c)"

definition distance_matrix :: "string \<Rightarrow> farray \<Rightarrow> farray" where
  "distance_matrix distance C =
     (if distance = ''root_inv'' then map_farray root_inv C else map_farray inv_square C)"

definition fit :: "ndarray \<Rightarrow> string \<Rightarrow> results \<Rightarrow> (error + graph) \<times> results" where
  "fit TS distance results =
     (case shape TS of
        [N, L] \<Rightarrow>
          (let C = np_corrcoef N L TS;
               D = distance_matrix distance C;
               results1 = results(''distance_matrix'' \<mapsto> VArray D)
           in (case minimum_spanning_tree D of
                 Inl e \<Rightarrow> (Inl e, results1)
               | Inr MST \<Rightarrow>
                   (let G = from_scipy_sparse_matrix MST
                    in (Inr G, results1(''graph'' \<mapsto> VGraph G)))))
      | _ \<Rightarrow> (Inl ValueError_unpack, results))"

section \<open>Vocabulary of the properties\<close>




text \<open>
  Edges are undirected: two nodes are adjacent when an edge joins them in either
  direction, and connected when a path of adjacent nodes leads from one to the other.
  A set of edges is a forest when no edge closes a cycle, that is, when the two ends of
  every edge are disconnected once the edge is taken away.
\<close>

definition adjacency :: "edge set \<Rightarrow> (nat \<times> nat) set" where
  "adjacency E = {(u, v). \<exists>w. (u, v, w) \<in> E \<or> (v, u, w) \<in> E}"

definition connected_in :: "edge set \<Rightarrow> nat \<Rightarrow> nat \<Rightarrow> bool" where
  "connected_in E u v \<longleftrightarrow> (u, v) \<in> (adjacency E)\<^sup>*"

definition forest :: "edge set \<Rightarrow> bool" where
  "forest E \<longleftrightarrow> (\<forall>(u, v, w)\<in>E. \<not> connected_in (E - {(u, v, w)}) u v)"




section \<open>Evaluation and structure of fit\<close>


lemma fit_2d:
  "shape TS = [N, L] \<Longrightarrow> fit TS d s =
     (case minimum_spanning_tree (distance_matrix d (np_corrcoef N L TS)) of
        Inl e \<Rightarrow> (Inl e, s(''distance_matrix'' \<mapsto> VArray (distance_matrix d (np_corrcoef N L TS))))
      | Inr MST \<Rightarrow> (Inr (from_scipy_sparse_matrix MST),
           s(''distance_matrix'' \<mapsto> VArray (distance_matrix d (np_corrcoef N L TS)),
             ''graph'' \<mapsto> VGraph (from_scipy_sparse_matrix MST))))"
  by (simp add: fit_def Let_def split: sum.splits)


lemma length_cov_dense [simp]: "length (cov_dense N L TS) = N"
  by (simp add: cov_dense_def Let_def)

lemma length_corr_dense [simp]: "length (corr_dense c) = length c"
  by (simp add: corr_dense_def Let_def diag_def)


lemma minimum_spanning_tree_Matrix:
  "minimum_spanning_tree (Matrix rows) =
     Inr (CSR (length rows) (filter (\<lambda>e. e \<in> set (kruskal (length rows) (csgraph_from_dense rows))) (csgraph_from_dense rows)))"
  by (simp add: minimum_spanning_tree_def Let_def)

lemma minimum_spanning_tree_Scalar:
  "minimum_spanning_tree (Scalar x) = Inl ValueError_graph_dimensions"
  by (simp add: minimum_spanning_tree_def)

lemma fit_NDArray:
  "fit (NDArray [N, L] xs) d s =
     (case minimum_spanning_tree (distance_matrix d (np_corrcoef N L (NDArray [N, L] xs))) of
        Inl e \<Rightarrow> (Inl e, s(''distance_matrix'' \<mapsto> VArray (distance_matrix d (np_corrcoef N L (NDArray [N, L] xs)))))
      | Inr MST \<Rightarrow> (Inr (from_scipy_sparse_matrix MST),
           s(''distance_matrix'' \<mapsto> VArray (distance_matrix d (np_corrcoef N L (NDArray [N, L] xs))),
             ''graph'' \<mapsto> VGraph (from_scipy_sparse_matrix MST))))"
  by (simp add: fit_2d)

lemmas eval_defs = fit_NDArray minimum_spanning_tree_Matrix minimum_spanning_tree_Scalar
  np_corrcoef_def np_cov_def cov_dense_def corr_dense_def row_of_def
  demean_def dot_def squeeze_def diag_def distance_matrix_def root_inv_def inv_square_def
  np_square_def np_sub_def csgraph_from_dense_def kruskal_def
  signed_inf_def upt_conv_Cons Let_def

section \<open>The distance option\<close>

text \<open>
  An unrecognized value of \<open>distance\<close> raises nothing: on two rows of three samples
  \<open>fit\<close> with the option \<open>euclidean\<close> returns a graph, whose edge carries
  the inverse-square distance \<open>1 - (1/2)\<^sup>2\<close>.
\<close>

theorem unrecognized_distance_returns_graph:
  "fst (fit (NDArray [2, 3] [1, 2, 3, 2, 1, 3]) ''euclidean'' Map.empty) =
     Inr \<lparr>nodes = [0, 1], edges = [(0, 1, 3 / 4)]\<rparr>"
  by (simp add: eval_defs)

text \<open>
  Claim C3, as the code has it: a \<open>distance\<close> that is neither \<open>root_inv\<close> nor
  \<open>inv_square\<close> is not rejected; \<open>fit\<close> does exactly what it does for
  \<open>inv_square\<close>, result and stored entries included.
\<close>

theorem unrecognized_distance_is_inv_square:
  "distance \<noteq> ''root_inv'' \<Longrightarrow> distance \<noteq> ''inv_square'' \<Longrightarrow>
     fit TS distance results = fit TS ''inv_square'' results"
  by (simp add: fit_def distance_matrix_def split: list.splits)

theorem unrecognized_distance_is_inv_square_witness:
  "''euclidean'' \<noteq> ''root_inv'' \<and> ''euclidean'' \<noteq> ''inv_square'' \<and>
   fit (NDArray [2, 3] [1, 2, 3, 2, 1, 3]) ''euclidean'' Map.empty =
   fit (NDArray [2, 3] [1, 2, 3, 2, 1, 3]) ''inv_square'' Map.empty"
  using unrecognized_distance_is_inv_square [of "''euclidean''" "NDArray [2, 3] [1, 2, 3, 2, 1, 3]" Map.empty]
  by simp



section \<open>The shape of the input\<close>




section \<open>The square root of the root-inverse distance\<close>



section \<open>Determinism\<close>



section \<open>The stored results\<close>




section \<open>Zero distances\<close>

text \<open>
  Claim C1 at an input where it fails: every entry of the distance matrix of two
  identical rows is zero, the spanning-tree routine reads a zero as a missing edge, and
  the result has no edge where a spanning tree of two nodes has one.
\<close>

theorem zero_distances_are_dropped:
  "minimum_spanning_tree (Matrix [[Num 0, Num 0], [Num 0, Num 0]]) = Inr (CSR 2 []) \<and>
   fit (NDArray [2, 3] [1, 2, 3, 1, 2, 3]) ''root_inv'' Map.empty =
     (Inr \<lparr>nodes = [0, 1], edges = []\<rparr>,
      [''distance_matrix'' \<mapsto> VArray (Matrix [[Num 0, Num 0], [Num 0, Num 0]]),
       ''graph'' \<mapsto> VGraph \<lparr>nodes = [0, 1], edges = []\<rparr>])"
  by (simp add: eval_defs)

text \<open>
  Claim C5 at an input where it fails: rows \<open>0\<close> and \<open>1\<close> are identical and
  their distance is zero, yet the graph joins each of them to node \<open>2\<close> at
  weight one and has no edge between them; its total weight is two, where the tree with
  the zero-weight edge weighs one.
\<close>

theorem identical_rows_are_not_joined:
  "fit (NDArray [3, 3] [1, 2, 3, 1, 2, 3, 2, 1, 3]) ''root_inv'' Map.empty =
     (Inr \<lparr>nodes = [0, 1, 2], edges = [(0, 2, 1), (1, 2, 1)]\<rparr>,
      [''distance_matrix'' \<mapsto> VArray (Matrix [[Num 0, Num 0, Num 1], [Num 0, Num 0, Num 1], [Num 1, Num 1, Num 0]]),
       ''graph'' \<mapsto> VGraph \<lparr>nodes = [0, 1, 2], edges = [(0, 2, 1), (1, 2, 1)]\<rparr>])"
  by (simp add: eval_defs numeral_2_eq_2)

section \<open>Entries of the covariance and correlation matrices\<close>




lemma length_cov_dense_row [simp]: "i < N \<Longrightarrow> length (cov_dense N L TS ! i) = N"
  by (simp add: cov_dense_def Let_def)











section \<open>The distance matrix of a valid input\<close>




section \<open>The scan of the spanning-tree routine keeps a forest\<close>



lemma connected_in_refl [simp]: "connected_in E u u"
  by (simp add: connected_in_def)







lemma forest_empty [simp]: "forest {}"
  by (simp add: forest_def)











section \<open>Rows of zero variance\<close>








lemma np_div_NaN [simp]: "np_div NaN y = NaN"
  by (cases y) simp_all



lemma root_inv_NaN [simp]: "root_inv NaN = NaN"
  by (simp add: root_inv_def np_sub_def)

lemma inv_square_NaN [simp]: "inv_square NaN = NaN"
  by (simp add: inv_square_def np_sub_def np_square_def)





end
